theory Spec2Isabelle
  imports Complex_Main
begin

section \<open>Face tracking: trackers, the tracker registry and the detection scheduler\<close>

text \<open>
  A shallow embedding of \<^verbatim>\<open>inaFaceGender/face_tracking.py\<close>: the classes
  \<^verbatim>\<open>Tracker\<close>, \<^verbatim>\<open>TrackerList\<close> and \<^verbatim>\<open>TrackerDetector\<close>.
  Python floats are idealised as real numbers, object identifiers and counters are
  natural numbers or integers, a Python exception is the left summand of a result,
  and every method returns the objects it mutates.
\<close>

subsection \<open>Exceptions\<close>

datatype error =
    NameError string
  | AttributeError string
  | KeyError nat
  | ValueError
  | ZeroDivisionError

subsection \<open>Rectangles\<close>

text \<open>
  The rectangles of the external geometry library (\<^verbatim>\<open>dlib.rectangle\<close> with integer
  and \<^verbatim>\<open>dlib.drectangle\<close> with float coordinates) are not part of the sources; they
  are modelled as the library computes them. A box has the attributes left, top, right
  and bottom. A box whose right edge lies before its left edge, or whose bottom edge
  lies above its top edge, is empty and has area \<open>0\<close>. The edges of any other box belong
  to it: its area is \<open>(right - left + 1) * (bottom - top + 1)\<close>, so that the box
  \<open>(0, 0, 0, 0)\<close> has area \<open>1\<close> and \<open>(0, 0, -1, -1)\<close> is empty. The intersection of
  two boxes takes the greater left and top and the smaller right and bottom.
\<close>

record box =
  left :: real
  top :: real
  right :: real
  bottom :: real

definition rectangle :: "real \<Rightarrow> real \<Rightarrow> real \<Rightarrow> real \<Rightarrow> box" where
  "rectangle l tp r b = \<lparr>left = l, top = tp, right = r, bottom = b\<rparr>"

definition area :: "box \<Rightarrow> real" where
  "area b = (if right b < left b \<or> bottom b < top b then 0
             else (right b - left b + 1) * (bottom b - top b + 1))"

definition intersect :: "box \<Rightarrow> box \<Rightarrow> box" where
  "intersect a b = rectangle (max (left a) (left b)) (max (top a) (top b))
                             (min (right a) (right b)) (min (bottom a) (bottom b))"

text \<open>Python's \<^verbatim>\<open>int(x)\<close> on a float rounds towards zero.\<close>

definition py_int :: "real \<Rightarrow> real" where
  "py_int x = (if 0 \<le> x then of_int \<lfloor>x\<rfloor> else of_int \<lceil>x\<rceil>)"

subsection \<open>Frames\<close>

text \<open>
  A frame is an image array (\<^verbatim>\<open>numpy.ndarray\<close>): \<^verbatim>\<open>frame.shape\<close> is unpacked into
  height, width and channels, and the frame is handed to the tracking primitive.
  \<open>ident\<close> tells one array object from another, \<open>pixels\<close> gives the element at a
  flat index.
\<close>

record frame =
  ident :: nat
  shape :: "nat \<times> nat \<times> nat"
  pixels :: "nat \<Rightarrow> nat"

text \<open>
  \<^verbatim>\<open>if frame != self.last_frame:\<close> The operator \<^verbatim>\<open>!=\<close> compares two arrays
  element by element and returns an array, whose truth value the \<^verbatim>\<open>if\<close> takes. Only
  an array of one element has a truth value; the result has one element exactly when
  both frames have the shape \<open>(1, 1, 1)\<close>. For a result of several elements Python
  raises \<^verbatim>\<open>ValueError\<close>, and so it does for shapes that cannot be broadcast (NumPy
  since version 1.25) and for an empty result (NumPy since version 2.2). The identity
  of the objects plays no part.
\<close>

definition array_ne_truth :: "frame \<Rightarrow> frame \<Rightarrow> error + bool" where
  "array_ne_truth a b =
     (if shape a = (1, 1, 1) \<and> shape b = (1, 1, 1) then Inr (pixels a 0 \<noteq> pixels b 0)
      else Inl ValueError)"

subsection \<open>The visual tracking primitive\<close>

text \<open>
  \<^verbatim>\<open>dlib.correlation_tracker\<close> is external: its operations are parameters of the
  model, over an arbitrary type \<open>'s\<close> of primitive states. \<open>fresh\<close> is the state of a
  newly constructed primitive, \<open>prim_update\<close> is \<^verbatim>\<open>t.update(frame)\<close>,
  \<open>prim_update_guess\<close> is \<^verbatim>\<open>t.update(frame, bb)\<close>; both return the quality and
  the new state.
\<close>

record 's prim =
  fresh :: 's
  start_track :: "frame \<Rightarrow> box \<Rightarrow> 's \<Rightarrow> 's"
  prim_update :: "frame \<Rightarrow> 's \<Rightarrow> real \<times> 's"
  prim_update_guess :: "frame \<Rightarrow> box \<Rightarrow> 's \<Rightarrow> real \<times> 's"
  get_position :: "'s \<Rightarrow> box"

subsection \<open>Class Tracker\<close>

text \<open>
  \<^verbatim>\<open>__init__\<close> assigns \<^verbatim>\<open>last_frame\<close>, \<^verbatim>\<open>t\<close> and \<^verbatim>\<open>tid\<close>; the attribute
  \<^verbatim>\<open>update_val\<close> does not exist until \<^verbatim>\<open>update\<close> assigns it, which is the
  value \<open>None\<close> of the field here.
\<close>

record 's Tracker =
  last_frame :: frame
  t :: 's
  tid :: nat
  update_val :: "real option"

definition Tracker_init :: "'s prim \<Rightarrow> frame \<Rightarrow> box \<Rightarrow> nat \<Rightarrow> 's Tracker" where
  "Tracker_init P fr bb n =
     \<lparr>last_frame = fr, t = start_track P fr bb (fresh P), tid = n, update_val = None\<rparr>"

definition Tracker_intersect_area :: "'s prim \<Rightarrow> box \<Rightarrow> 's Tracker \<Rightarrow> real" where
  "Tracker_intersect_area P bb self =
     (let pos = get_position P (t self);
          tmp = rectangle (py_int (left pos)) (py_int (top pos))
                          (py_int (right pos)) (py_int (bottom pos))
      in area (intersect bb tmp))"

definition Tracker_iou :: "'s prim \<Rightarrow> box \<Rightarrow> 's Tracker \<Rightarrow> error + real" where
  "Tracker_iou P bb self =
     (let inter = Tracker_intersect_area P bb self;
          den = inter + area (get_position P (t self)) + area bb
      in if den = 0 then Inl ZeroDivisionError else Inr (inter / den))"

definition Tracker_update :: "'s prim \<Rightarrow> frame \<Rightarrow> 's Tracker \<Rightarrow> error + (real \<times> 's Tracker)" where
  "Tracker_update P fr self =
     (case array_ne_truth fr (last_frame self) of
        Inl e \<Rightarrow> Inl e
      | Inr ne \<Rightarrow>
          if ne then
            (case prim_update P fr (t self) of
               (v, t') \<Rightarrow> Inr (v, self\<lparr>last_frame := fr, t := t', update_val := Some v\<rparr>))
          else
            (case update_val self of
               None \<Rightarrow> Inl (AttributeError ''update_val'')
             | Some v \<Rightarrow> Inr (v, self)))"

definition Tracker_tracking_quality ::
  "'s prim \<Rightarrow> frame \<Rightarrow> box \<Rightarrow> 's Tracker \<Rightarrow> real \<times> 's Tracker" where
  "Tracker_tracking_quality P fr bb self =
     (case prim_update_guess P fr bb (t self) of
        (ret, t') \<Rightarrow> (ret, self\<lparr>t := start_track P fr bb t'\<rparr>))"

text \<open>
  The names a method reads without binding them are looked up in the module's global
  namespace. \<^verbatim>\<open>is_in_frame\<close> reads \<^verbatim>\<open>frame\<close> (its parameter is called
  \<^verbatim>\<open>frame_shape\<close>) and \<^verbatim>\<open>TrackerDetector.__call__\<close> reads \<^verbatim>\<open>tl\<close>; the module
  binds neither name.
\<close>

record 's TrackerList =
  d :: "(nat \<times> 's Tracker) list"
  i :: nat

record 's globals =
  g_frame :: "frame option"
  g_tl :: "'s TrackerList option"

definition module_globals :: "'s globals" where
  "module_globals = \<lparr>g_frame = None, g_tl = None\<rparr>"

definition Tracker_is_in_frame ::
  "'s globals \<Rightarrow> 's prim \<Rightarrow> nat \<times> nat \<times> nat \<Rightarrow> 's Tracker \<Rightarrow> error + bool" where
  "Tracker_is_in_frame G P frame_shape self =
     (case g_frame G of
        None \<Rightarrow> Inl (NameError ''frame'')
      | Some fr \<Rightarrow>
          (case shape fr of
             (fheight, fwidth, _) \<Rightarrow>
               (let pos = get_position P (t self)
                in Inr (right pos > 0 \<and> left pos < real fwidth
                        \<and> top pos < real fheight \<and> bottom pos > 0))))"

subsection \<open>Dictionaries\<close>

text \<open>
  A Python dictionary keeps its keys in insertion order: it is an association list.
  \<open>dict_set\<close> is \<^verbatim>\<open>dct[k] = v\<close> (an existing key keeps its place, a new key goes
  to the end), \<open>dict_del\<close> is \<^verbatim>\<open>del dct[k]\<close>, \<open>dict_get\<close> is \<^verbatim>\<open>dct[k]\<close>.
\<close>

fun dict_set :: "nat \<Rightarrow> 'v \<Rightarrow> (nat \<times> 'v) list \<Rightarrow> (nat \<times> 'v) list" where
  "dict_set k v [] = [(k, v)]"
| "dict_set k v (e # es) = (if fst e = k then (k, v) # es else e # dict_set k v es)"

definition dict_del :: "nat \<Rightarrow> (nat \<times> 'v) list \<Rightarrow> (nat \<times> 'v) list" where
  "dict_del k es = filter (\<lambda>e. fst e \<noteq> k) es"

definition dict_get :: "(nat \<times> 'v) list \<Rightarrow> nat \<Rightarrow> error + 'v" where
  "dict_get es k = (case map_of es k of None \<Rightarrow> Inl (KeyError k) | Some v \<Rightarrow> Inr v)"

subsection \<open>Class TrackerList\<close>

definition TrackerList_init :: "'s TrackerList" where
  "TrackerList_init = \<lparr>d = [], i = 0\<rparr>"

text \<open>
  The loop of \<^verbatim>\<open>TrackerList.update\<close> over \<^verbatim>\<open>list(self.d)\<close>. The tracker object
  is mutated by its \<^verbatim>\<open>update\<close>; \<^verbatim>\<open>or\<close> evaluates \<^verbatim>\<open>is_in_frame\<close> only when the
  quality is not below 7.
\<close>

fun TrackerList_update_loop ::
  "'s globals \<Rightarrow> 's prim \<Rightarrow> frame \<Rightarrow> nat list \<Rightarrow> (nat \<times> 's Tracker) list
     \<Rightarrow> error + (nat \<times> 's Tracker) list" where
  "TrackerList_update_loop G P fr [] dct = Inr dct"
| "TrackerList_update_loop G P fr (fid # fids) dct =
     (case dict_get dct fid of
        Inl e \<Rightarrow> Inl e
      | Inr tr \<Rightarrow>
          (case Tracker_update P fr tr of
             Inl e \<Rightarrow> Inl e
           | Inr (q, tr') \<Rightarrow>
               (let dct' = dict_set fid tr' dct
                in if q < 7 then TrackerList_update_loop G P fr fids (dict_del fid dct')
                   else
                     (case Tracker_is_in_frame G P (shape fr) tr' of
                        Inl e \<Rightarrow> Inl e
                      | Inr inside \<Rightarrow>
                          if \<not> inside
                          then TrackerList_update_loop G P fr fids (dict_del fid dct')
                          else TrackerList_update_loop G P fr fids dct'))))"

definition TrackerList_update ::
  "'s globals \<Rightarrow> 's prim \<Rightarrow> frame \<Rightarrow> 's TrackerList \<Rightarrow> error + 's TrackerList" where
  "TrackerList_update G P fr self =
     (case TrackerList_update_loop G P fr (map fst (d self)) (d self) of
        Inl e \<Rightarrow> Inl e
      | Inr dct \<Rightarrow> Inr (self\<lparr>d := dct\<rparr>))"

text \<open>
  \<^verbatim>\<open>np.argmax\<close>: the index of the first greatest element; it raises on an empty
  sequence.
\<close>

fun argmax_scan :: "nat \<Rightarrow> real \<Rightarrow> nat \<Rightarrow> real list \<Rightarrow> nat" where
  "argmax_scan best bv k [] = best"
| "argmax_scan best bv k (x # xs) =
     (if bv < x then argmax_scan k x (Suc k) xs else argmax_scan best bv (Suc k) xs)"

definition argmax :: "real list \<Rightarrow> error + nat" where
  "argmax xs = (case xs of [] \<Rightarrow> Inl ValueError | x # rest \<Rightarrow> Inr (argmax_scan 0 x 1 rest))"

text \<open>
  The list comprehension \<^verbatim>\<open>rmscore\<close> of \<^verbatim>\<open>ingest_detection\<close>, over the keys
  \<^verbatim>\<open>to_remove\<close>: \<^verbatim>\<open>tracking_quality\<close> is called, and mutates the tracker, only
  where \<^verbatim>\<open>iou(bb) > 0.5\<close>.
\<close>

fun rmscore_list ::
  "'s prim \<Rightarrow> frame \<Rightarrow> box \<Rightarrow> nat list \<Rightarrow> (nat \<times> 's Tracker) list
     \<Rightarrow> error + (real list \<times> (nat \<times> 's Tracker) list)" where
  "rmscore_list P fr bb [] dct = Inr ([], dct)"
| "rmscore_list P fr bb (k # ks) dct =
     (case dict_get dct k of
        Inl e \<Rightarrow> Inl e
      | Inr tr \<Rightarrow>
          (case Tracker_iou P bb tr of
             Inl e \<Rightarrow> Inl e
           | Inr v \<Rightarrow>
               (if v > 0.5 then
                  (case Tracker_tracking_quality P fr bb tr of
                     (q, tr') \<Rightarrow>
                       (case rmscore_list P fr bb ks (dict_set k tr' dct) of
                          Inl e \<Rightarrow> Inl e
                        | Inr (qs, dct') \<Rightarrow> Inr (q # qs, dct')))
                else
                  (case rmscore_list P fr bb ks dct of
                     Inl e \<Rightarrow> Inl e
                   | Inr (qs, dct') \<Rightarrow> Inr (0 # qs, dct')))))"

text \<open>
  The loop of \<^verbatim>\<open>ingest_detection\<close> over the detected boxes. Its state is
  \<^verbatim>\<open>to_remove\<close>, \<^verbatim>\<open>to_add\<close>, the counter \<^verbatim>\<open>self.i\<close> and the dictionary
  \<^verbatim>\<open>self.d\<close>, whose trackers the probes mutate.
\<close>

fun ingest_loop ::
  "'s prim \<Rightarrow> frame \<Rightarrow> box list \<Rightarrow> nat list \<Rightarrow> (nat \<times> 's Tracker) list \<Rightarrow> nat
     \<Rightarrow> (nat \<times> 's Tracker) list
     \<Rightarrow> error + (nat list \<times> (nat \<times> 's Tracker) list \<times> nat \<times> (nat \<times> 's Tracker) list)" where
  "ingest_loop P fr [] to_remove to_add n dct = Inr (to_remove, to_add, n, dct)"
| "ingest_loop P fr (bb # lbox) to_remove to_add n dct =
     (case rmscore_list P fr bb to_remove dct of
        Inl e \<Rightarrow> Inl e
      | Inr (rmscore, dct') \<Rightarrow>
          (case (if length rmscore > 0 then map_sum id Some (argmax rmscore) else Inr None) of
             Inl e \<Rightarrow> Inl e
           | Inr am \<Rightarrow>
               (if am \<noteq> None \<and> rmscore ! the am > 7 then
                  (let idrm = to_remove ! the am
                   in ingest_loop P fr lbox (remove1 idrm to_remove)
                        (dict_set idrm (Tracker_init P fr bb idrm) to_add) n dct')
                else
                  ingest_loop P fr lbox to_remove
                    (dict_set n (Tracker_init P fr bb n) to_add) (n + 1) dct')))"

definition TrackerList_ingest_detection ::
  "'s prim \<Rightarrow> frame \<Rightarrow> box list \<Rightarrow> 's TrackerList \<Rightarrow> error + 's TrackerList" where
  "TrackerList_ingest_detection P fr lbox self =
     (case ingest_loop P fr lbox (map fst (d self)) [] (i self) (d self) of
        Inl e \<Rightarrow> Inl e
      | Inr (to_remove, to_add, n, dct) \<Rightarrow> Inr \<lparr>d = to_add, i = n\<rparr>)"

subsection \<open>Class TrackerDetector\<close>

text \<open>
  \<^verbatim>\<open>__init__\<close> assigns \<^verbatim>\<open>detector\<close>, \<^verbatim>\<open>detection_period\<close>, \<^verbatim>\<open>tl\<close> (the field
  \<open>tl_self\<close>) and \<^verbatim>\<open>iframe\<close>. \<^verbatim>\<open>__call__\<close> reads the attribute
  \<^verbatim>\<open>face_detector\<close>, which \<^verbatim>\<open>__init__\<close> does not assign: the field is \<open>None\<close>
  unless a caller has set it. A detector returns a list of pairs whose first
  component holds the four coordinates of a box.
\<close>

type_synonym detection = "(real \<times> real \<times> real \<times> real) \<times> real"

record 's TrackerDetector =
  detector :: "frame \<Rightarrow> detection list"
  detection_period :: int
  tl_self :: "'s TrackerList"
  iframe :: int
  face_detector :: "(frame \<Rightarrow> detection list) option"

definition TrackerDetector_init :: "(frame \<Rightarrow> detection list) \<Rightarrow> int \<Rightarrow> 's TrackerDetector" where
  "TrackerDetector_init det period =
     \<lparr>detector = det, detection_period = period, tl_self = TrackerList_init, iframe = 0,
      face_detector = None\<rparr>"

definition detected_box :: "detection \<Rightarrow> box" where
  "detected_box e =
     (case fst e of (x0, x1, x2, x3) \<Rightarrow> rectangle (py_int x0) (py_int x1) (py_int x2) (py_int x3))"

text \<open>The loop that builds \<^verbatim>\<open>lret\<close>: one pair per key of the registry.\<close>

fun emit_loop ::
  "'s prim \<Rightarrow> nat list \<Rightarrow> (nat \<times> 's Tracker) list
     \<Rightarrow> error + ((real \<times> real \<times> real \<times> real) \<times> nat) list" where
  "emit_loop P [] dct = Inr []"
| "emit_loop P (faceid # ks) dct =
     (case dict_get dct faceid of
        Inl e \<Rightarrow> Inl e
      | Inr tr \<Rightarrow>
          (let bb = get_position P (t tr)
           in case emit_loop P ks dct of
                Inl e \<Rightarrow> Inl e
              | Inr lret \<Rightarrow> Inr (((left bb, top bb, right bb, bottom bb), faceid) # lret)))"

text \<open>
  \<^verbatim>\<open>__call__\<close>: the registry it works on is the global \<^verbatim>\<open>tl\<close>, not
  \<^verbatim>\<open>self.tl\<close>. The result holds the emitted list, the globals and the scheduler.
\<close>

definition TrackerDetector_call ::
  "'s globals \<Rightarrow> 's prim \<Rightarrow> frame \<Rightarrow> 's TrackerDetector
     \<Rightarrow> error + (((real \<times> real \<times> real \<times> real) \<times> nat) list \<times> 's globals \<times> 's TrackerDetector)" where
  "TrackerDetector_call G P fr self =
     (case g_tl G of
        None \<Rightarrow> Inl (NameError ''tl'')
      | Some tl0 \<Rightarrow>
          (case TrackerList_update G P fr tl0 of
             Inl e \<Rightarrow> Inl e
           | Inr tl1 \<Rightarrow>
               (case (if detection_period self = 0 then Inl ZeroDivisionError
                      else if iframe self mod detection_period self \<noteq> 0 then
                        (case face_detector self of
                           None \<Rightarrow> Inl (AttributeError ''face_detector'')
                         | Some fd \<Rightarrow>
                             TrackerList_ingest_detection P fr (map detected_box (fd fr)) tl1)
                      else Inr tl1) of
                  Inl e \<Rightarrow> Inl e
                | Inr tl2 \<Rightarrow>
                    (case emit_loop P (map fst (d tl2)) (d tl2) of
                       Inl e \<Rightarrow> Inl e
                     | Inr lret \<Rightarrow>
                         Inr (lret, G\<lparr>g_tl := Some tl2\<rparr>, self\<lparr>iframe := iframe self + 1\<rparr>)))))"

subsection \<open>Specification-level notions\<close>

text \<open>
  The overlap ratio as the specification words it, for comparison with
  \<open>Tracker_iou\<close>: the intersection over the sum of both areas minus the intersection.
\<close>

definition iou_spec :: "box \<Rightarrow> box \<Rightarrow> real" where
  "iou_spec a b = area (intersect a b) / (area a + area b - area (intersect a b))"

text \<open>
  The entries a pass adds when every box spawns a track: box number \<open>k\<close> of the list
  gets the identifier \<open>n + k\<close>.
\<close>

fun spawned :: "'s prim \<Rightarrow> frame \<Rightarrow> box list \<Rightarrow> nat \<Rightarrow> (nat \<times> 's Tracker) list" where
  "spawned P fr [] n = []"
| "spawned P fr (bb # lbox) n = (n, Tracker_init P fr bb n) # spawned P fr lbox (Suc n)"

text \<open>A sequence of \<^verbatim>\<open>ingest_detection\<close> calls on one registry; an exception ends it.\<close>

fun reconcile_seq ::
  "'s prim \<Rightarrow> (frame \<times> box list) list \<Rightarrow> 's TrackerList \<Rightarrow> error + 's TrackerList" where
  "reconcile_seq P [] reg = Inr reg"
| "reconcile_seq P (c # cs) reg =
     (case TrackerList_ingest_detection P (fst c) (snd c) reg of
        Inl e \<Rightarrow> Inl e
      | Inr reg' \<Rightarrow> reconcile_seq P cs reg')"

subsection \<open>A test double for the tracking primitive\<close>

text \<open>
  The primitive's state is its position. It never moves, reports the quality \<open>q\<close> on
  propagation and the quality \<open>probe bb\<close> when probed with the box \<open>bb\<close>.
\<close>

definition mock_prim :: "(box \<Rightarrow> real) \<Rightarrow> real \<Rightarrow> box prim" where
  "mock_prim probe q =
     \<lparr>fresh = rectangle 0 0 0 0,
      start_track = (\<lambda>fr bb s. bb),
      prim_update = (\<lambda>fr s. (q, s)),
      prim_update_guess = (\<lambda>fr bb s. (probe bb, s)),
      get_position = (\<lambda>s. s)\<rparr>"

text \<open>
  \<open>frame_of n\<close> is a colour image of 100 by 100 pixels, \<open>pixel_frame n v\<close> an array
  of the single element \<open>v\<close>; \<open>n\<close> names the object.
\<close>

definition frame_of :: "nat \<Rightarrow> frame" where
  "frame_of n = \<lparr>ident = n, shape = (100, 100, 3), pixels = (\<lambda>k. 0)\<rparr>"

definition pixel_frame :: "nat \<Rightarrow> nat \<Rightarrow> frame" where
  "pixel_frame n v = \<lparr>ident = n, shape = (1, 1, 1), pixels = (\<lambda>k. v)\<rparr>"



text \<open>
  The invariant of a registry: its keys are the last \<open>length d\<close> identifiers given
  out, in order, and every tracker carries its key as \<^verbatim>\<open>tid\<close>.
\<close>

definition registry_inv :: "'s TrackerList \<Rightarrow> bool" where
  "registry_inv reg =
     (length (d reg) \<le> i reg
      \<and> map fst (d reg) = [i reg - length (d reg) ..< i reg]
      \<and> list_all (\<lambda>e. tid (snd e) = fst e) (d reg))"

section \<open>Properties\<close>

subsection \<open>Areas and the overlap ratio\<close>

lemma area_nonneg: "0 \<le> area b"
  by (simp add: area_def)

lemma area_intersect_le: "area (intersect a b) \<le> area a"
  unfolding area_def intersect_def rectangle_def
  by (auto simp: not_less intro!: mult_mono)

lemma area_pos_iff: "0 < area b \<longleftrightarrow> left b \<le> right b \<and> top b \<le> bottom b"
  by (auto simp: area_def not_less intro!: mult_pos_pos)

lemma area_zero_iff: "area b = 0 \<longleftrightarrow> right b < left b \<or> bottom b < top b"
  using area_pos_iff [of b] area_nonneg [of b] by (auto simp: not_le)

lemma Tracker_intersect_area_bounds:
  "0 \<le> Tracker_intersect_area P bb tr \<and> Tracker_intersect_area P bb tr \<le> area bb"
  by (simp add: Tracker_intersect_area_def Let_def area_nonneg area_intersect_le)

lemma Tracker_iou_le_half:
  assumes "Tracker_iou P bb tr = Inr v"
  shows "v \<le> 1 / 2"
proof -
  define inter where "inter = Tracker_intersect_area P bb tr"
  define den where "den = inter + area (get_position P (t tr)) + area bb"
  have b: "0 \<le> inter" "inter \<le> area bb"
    using Tracker_intersect_area_bounds [of P bb tr] by (simp_all add: inter_def)
  have nz: "den \<noteq> 0" and v: "v = inter / den"
    using assms by (auto simp: Tracker_iou_def Let_def inter_def den_def split: if_splits)
  have "0 \<le> den" "2 * inter \<le> den"
    using b area_nonneg [of "get_position P (t tr)"] by (simp_all add: den_def)
  with nz have "0 < den" by simp
  with \<open>2 * inter \<le> den\<close> show ?thesis
    by (simp add: v field_simps)
qed

lemma Tracker_iou_returns: "0 < area bb \<Longrightarrow> \<exists>v. Tracker_iou P bb tr = Inr v"
  using Tracker_intersect_area_bounds [of P bb tr] area_nonneg [of "get_position P (t tr)"]
  by (auto simp: Tracker_iou_def Let_def)


subsection \<open>The candidate scores of a pass\<close>

lemma rmscore_list_zero:
  "rmscore_list P fr bb ks dct = Inr (qs, dct') \<Longrightarrow> qs = replicate (length ks) 0 \<and> dct' = dct"
proof (induction ks arbitrary: qs)
  case Nil
  then show ?case by simp
next
  case (Cons k ks)
  from Cons.prems obtain tr v
    where g: "dict_get dct k = Inr tr" and u: "Tracker_iou P bb tr = Inr v"
    by (auto split: sum.splits)
  from Tracker_iou_le_half [OF u] have nv: "\<not> 0.5 < v" by simp
  from Cons.prems g u nv obtain qs'
    where r: "rmscore_list P fr bb ks dct = Inr (qs', dct')" and q: "qs = 0 # qs'"
    by (auto split: sum.splits)
  from Cons.IH [OF r] q show ?case by simp
qed

lemma dict_get_mem: "k \<in> fst ` set es \<Longrightarrow> \<exists>v. dict_get es k = Inr v"
  by (cases "map_of es k") (auto simp: dict_get_def map_of_eq_None_iff)

lemma rmscore_list_returns:
  "set ks \<subseteq> fst ` set dct \<Longrightarrow> 0 < area bb \<Longrightarrow>
     rmscore_list P fr bb ks dct = Inr (replicate (length ks) 0, dct)"
proof (induction ks)
  case Nil
  then show ?case by simp
next
  case (Cons k ks)
  from Cons.prems obtain tr where g: "dict_get dct k = Inr tr"
    using dict_get_mem [of k dct] by auto
  from Cons.prems obtain v where u: "Tracker_iou P bb tr = Inr v"
    using Tracker_iou_returns [of bb P tr] by auto
  from Tracker_iou_le_half [OF u] have nv: "\<not> 0.5 < v" by simp
  from Cons have "rmscore_list P fr bb ks dct = Inr (replicate (length ks) 0, dct)" by simp
  with g u nv show ?case by simp
qed


lemma argmax_scan_zero: "argmax_scan best 0 k (replicate m 0) = best"
  by (induction m arbitrary: k) simp_all

subsection \<open>The loop over the detections\<close>

lemma dict_set_fresh: "k \<notin> fst ` set es \<Longrightarrow> dict_set k v es = es @ [(k, v)]"
  by (induction es) auto

lemma ingest_loop_spawns:
  "ingest_loop P fr lbox to_remove to_add n dct = Inr r \<Longrightarrow> \<forall>k\<in>fst ` set to_add. k < n \<Longrightarrow>
     r = (to_remove, to_add @ spawned P fr lbox n, n + length lbox, dct)"
proof (induction lbox arbitrary: to_add n)
  case Nil
  then show ?case by simp
next
  case (Cons bb lbox)
  from Cons.prems(1) obtain rmscore dct'
    where s: "rmscore_list P fr bb to_remove dct = Inr (rmscore, dct')"
    by (auto split: sum.splits)
  from rmscore_list_zero [OF s]
  have z: "rmscore = replicate (length to_remove) 0" and dd: "dct' = dct"
    by simp_all
  let ?to_add = "dict_set n (Tracker_init P fr bb n) to_add"
  have step: "ingest_loop P fr lbox to_remove ?to_add (n + 1) dct = Inr r"
  proof (cases to_remove)
    case Nil
    with Cons.prems(1) s z dd show ?thesis by simp
  next
    case (Cons a as)
    with z have "argmax rmscore = Inr 0" "rmscore ! 0 = 0"
      by (simp_all add: argmax_def argmax_scan_zero)
    with Cons.prems(1) s z dd Cons show ?thesis by simp
  qed
  have "n \<notin> fst ` set to_add" using Cons.prems(2) by auto
  then have eq: "?to_add = to_add @ [(n, Tracker_init P fr bb n)]" by (rule dict_set_fresh)
  have "\<forall>k\<in>fst ` set ?to_add. k < n + 1" using Cons.prems(2) by (auto simp: eq)
  from Cons.IH [OF step this] show ?case by (simp add: eq)
qed

lemma ingest_loop_returns:
  "set to_remove \<subseteq> fst ` set dct \<Longrightarrow> \<forall>bb\<in>set lbox. 0 < area bb \<Longrightarrow>
     \<exists>r. ingest_loop P fr lbox to_remove to_add n dct = Inr r"
proof (induction lbox arbitrary: to_add n)
  case Nil
  then show ?case by simp
next
  case (Cons bb lbox)
  then have s: "rmscore_list P fr bb to_remove dct = Inr (replicate (length to_remove) 0, dct)"
    by (simp add: rmscore_list_returns)
  from Cons have ih: "\<exists>r. ingest_loop P fr lbox to_remove
      (dict_set n (Tracker_init P fr bb n) to_add) (n + 1) dct = Inr r"
    by simp
  show ?case
  proof (cases to_remove)
    case Nil
    with s ih show ?thesis by simp
  next
    case (Cons a as)
    then have "argmax (replicate (length to_remove) 0) = Inr 0"
      "replicate (length to_remove) (0::real) ! 0 = 0"
      by (simp_all add: argmax_def argmax_scan_zero)
    with s ih Cons show ?thesis by simp
  qed
qed



lemma ingest_loop_result:
  assumes "\<forall>bb\<in>set lbox. 0 < area bb"
  shows "ingest_loop P fr lbox (map fst dct) [] n dct
           = Inr (map fst dct, spawned P fr lbox n, n + length lbox, dct)"
proof -
  from assms obtain r where r: "ingest_loop P fr lbox (map fst dct) [] n dct = Inr r"
    using ingest_loop_returns [of "map fst dct" dct lbox P fr "[]" n] by auto
  from ingest_loop_spawns [OF r] show ?thesis by (simp add: r)
qed

lemma ingest_detection_spawns:
  assumes "TrackerList_ingest_detection P fr lbox reg = Inr reg'"
  shows "reg' = \<lparr>d = spawned P fr lbox (i reg), i = i reg + length lbox\<rparr>"
proof -
  from assms obtain r
    where r: "ingest_loop P fr lbox (map fst (d reg)) [] (i reg) (d reg) = Inr r"
    by (auto simp: TrackerList_ingest_detection_def split: sum.splits)
  from ingest_loop_spawns [OF r] assms show ?thesis
    by (simp add: TrackerList_ingest_detection_def r)
qed

lemma ingest_detection_returns:
  assumes "\<forall>bb\<in>set lbox. 0 < area bb"
  shows "TrackerList_ingest_detection P fr lbox reg
           = Inr \<lparr>d = spawned P fr lbox (i reg), i = i reg + length lbox\<rparr>"
  by (simp add: TrackerList_ingest_detection_def ingest_loop_result [OF assms])

lemma length_spawned: "length (spawned P fr lbox n) = length lbox"
  by (induction lbox arbitrary: n) simp_all

lemma nth_spawned:
  "k < length lbox \<Longrightarrow>
     spawned P fr lbox n ! k = (n + k, Tracker_init P fr (lbox ! k) (n + k))"
proof (induction lbox arbitrary: n k)
  case Nil
  then show ?case by simp
next
  case (Cons bb lbox)
  then show ?case by (cases k) simp_all
qed

lemma keys_spawned: "map fst (spawned P fr lbox n) = [n ..< n + length lbox]"
  by (induction lbox arbitrary: n) (simp_all add: upt_rec)

lemma tid_spawned: "e \<in> set (spawned P fr lbox n) \<Longrightarrow> tid (snd e) = fst e"
  by (induction lbox arbitrary: n) (auto simp: Tracker_init_def)

subsection \<open>The registry invariant\<close>

lemma registry_inv_init: "registry_inv TrackerList_init"
  by (simp add: registry_inv_def TrackerList_init_def)

lemma registry_inv_ingest:
  assumes "TrackerList_ingest_detection P fr lbox reg = Inr reg'"
  shows "registry_inv reg' \<and> i reg \<le> i reg' \<and> (\<forall>k\<in>fst ` set (d reg'). i reg \<le> k)"
proof -
  from ingest_detection_spawns [OF assms]
  have r: "reg' = \<lparr>d = spawned P fr lbox (i reg), i = i reg + length lbox\<rparr>" .
  have len: "length (spawned P fr lbox (i reg)) = length lbox"
    using keys_spawned [of P fr lbox "i reg"]
    by (metis length_map length_upt add_diff_cancel_left')
  have "\<forall>k\<in>fst ` set (d reg'). i reg \<le> k"
    using keys_spawned [of P fr lbox "i reg"] by (simp add: r flip: set_map)
  then show ?thesis
    by (simp add: r registry_inv_def len keys_spawned list_all_iff tid_spawned)
qed

lemma registry_inv_seq:
  "reconcile_seq P cs reg = Inr reg' \<Longrightarrow> registry_inv reg \<Longrightarrow>
     registry_inv reg' \<and> i reg \<le> i reg'
     \<and> (\<forall>k\<in>fst ` set (d reg'). k \<in> fst ` set (d reg) \<or> i reg \<le> k)"
proof (induction cs arbitrary: reg)
  case Nil
  then show ?case by simp
next
  case (Cons c cs)
  from Cons.prems(1) obtain mid
    where m: "TrackerList_ingest_detection P (fst c) (snd c) reg = Inr mid"
      and rest: "reconcile_seq P cs mid = Inr reg'"
    by (auto split: sum.splits)
  from registry_inv_ingest [OF m]
  have im: "registry_inv mid" "i reg \<le> i mid" "\<forall>k\<in>fst ` set (d mid). i reg \<le> k"
    by simp_all
  from Cons.IH [OF rest im(1)]
  have ih: "registry_inv reg'" "i mid \<le> i reg'"
    "\<forall>k\<in>fst ` set (d reg'). k \<in> fst ` set (d mid) \<or> i mid \<le> k"
    by simp_all
  from im ih show ?case by (meson order_trans)
qed

lemma registry_inv_keys:
  assumes "registry_inv reg"
  shows "distinct (map fst (d reg))" "sorted_wrt (<) (map fst (d reg))"
    "\<forall>e\<in>set (d reg). tid (snd e) = fst e \<and> fst e < i reg"
proof -
  from assms have k: "map fst (d reg) = [i reg - length (d reg) ..< i reg]"
    and tt: "\<forall>e\<in>set (d reg). tid (snd e) = fst e"
    by (simp_all add: registry_inv_def list_all_iff)
  show "distinct (map fst (d reg))" by (simp add: k)
  show "sorted_wrt (<) (map fst (d reg))" by (simp add: k)
  have "\<forall>x\<in>set (map fst (d reg)). x < i reg" by (simp add: k)
  with tt show "\<forall>e\<in>set (d reg). tid (snd e) = fst e \<and> fst e < i reg" by simp
qed

lemma reconcile_seq_returns:
  "\<forall>c\<in>set cs. \<forall>b\<in>set (snd c). 0 < area b \<Longrightarrow> \<exists>reg'. reconcile_seq P cs reg = Inr reg'"
  by (induction cs arbitrary: reg) (simp_all add: ingest_detection_returns)

subsection \<open>The bounds check\<close>

text \<open>
  Were the name \<^verbatim>\<open>frame\<close> bound to a frame that is not empty, the comparisons of
  \<^verbatim>\<open>is_in_frame\<close> would decide, for a box with left before right and top above
  bottom, whether it overlaps the region from \<open>(0, 0)\<close> to \<open>(width, height)\<close> of
  the frame.
\<close>

lemma is_in_frame_bound:
  assumes "g_frame G = Some fr" and "shape fr = (h, w, c)" and "0 < h" and "0 < w"
    and "left (get_position P (t tr)) < right (get_position P (t tr))"
    and "top (get_position P (t tr)) < bottom (get_position P (t tr))"
  shows "Tracker_is_in_frame G P sh tr
           = Inr (max (left (get_position P (t tr))) 0 < min (right (get_position P (t tr))) (real w)
                  \<and> max (top (get_position P (t tr))) 0
                      < min (bottom (get_position P (t tr))) (real h))"
  using assms by (auto simp: Tracker_is_in_frame_def Let_def)

lemmas geometry_defs = rectangle_def area_def intersect_def py_int_def

lemmas tracker_defs =
  Tracker_iou_def Tracker_intersect_area_def Tracker_init_def mock_prim_def Let_def

section \<open>The claims\<close>

text \<open>
  C1. The overlap ratio is meant to be the intersection over the union,
  \<open>intersection / (areaA + areaB - intersection)\<close>, which is 1 for identical boxes.
  \<^verbatim>\<open>Tracker.iou\<close> adds the intersection to the denominator instead of subtracting
  it: for a tracker at the box \<open>(0, 0, 10, 10)\<close> and the same box as candidate it
  returns \<open>1/3\<close>, where the ratio of the specification is \<open>1\<close>.
\<close>

theorem iou_identical_boxes:
  "Tracker_iou (mock_prim (\<lambda>b. 9) 9) (rectangle 0 0 10 10)
     (Tracker_init (mock_prim (\<lambda>b. 9) 9) (frame_of 0) (rectangle 0 0 10 10) 0) = Inr (1 / 3)
   \<and> iou_spec (rectangle 0 0 10 10) (rectangle 0 0 10 10) = 1"
  by (simp add: tracker_defs geometry_defs iou_spec_def)

text \<open>
  C2. Reconciliation is destructive. For a registry whose keys all lie below its
  counter and a list of well-formed boxes (left before right, top above bottom),
  \<^verbatim>\<open>ingest_detection\<close> returns, and the registry it leaves holds exactly one
  tracker per detection, created in this pass on the detection's box, with the
  identifiers from the old counter on, in the order of the detections; the counter has
  advanced by their number. The list \<^verbatim>\<open>to_remove\<close> still holds every former key
  when the loop ends: no track is rebound, so the live identifiers are those of the
  rebound tracks (none) together with those of the spawned tracks, and every track that
  was live before the call is removed.
\<close>

theorem reconcile_destructive:
  assumes inv: "\<forall>k\<in>fst ` set (d reg). k < i reg"
    and boxes: "\<forall>b\<in>set lbox. left b < right b \<and> top b < bottom b"
  shows "TrackerList_ingest_detection P fr lbox reg
           = Inr \<lparr>d = spawned P fr lbox (i reg), i = i reg + length lbox\<rparr>
       \<and> ingest_loop P fr lbox (map fst (d reg)) [] (i reg) (d reg)
           = Inr (map fst (d reg), spawned P fr lbox (i reg), i reg + length lbox, d reg)
       \<and> length (spawned P fr lbox (i reg)) = length lbox
       \<and> (\<forall>k<length lbox. spawned P fr lbox (i reg) ! k
              = (i reg + k, Tracker_init P fr (lbox ! k) (i reg + k)))
       \<and> fst ` set (spawned P fr lbox (i reg))
           = (fst ` set (d reg) - set (map fst (d reg))) \<union> {i reg ..< i reg + length lbox}
       \<and> (\<forall>k\<in>fst ` set (d reg). k \<notin> fst ` set (spawned P fr lbox (i reg)))"
proof -
  from boxes have pos: "\<forall>b\<in>set lbox. 0 < area b" by (auto simp: area_pos_iff)
  let ?to_add = "spawned P fr lbox (i reg)"
  let ?n = "i reg + length lbox"
  have k: "fst ` set ?to_add = {i reg ..< ?n}"
    using keys_spawned [of P fr lbox "i reg"] by (metis set_map set_upt)
  have 1: "TrackerList_ingest_detection P fr lbox reg = Inr \<lparr>d = ?to_add, i = ?n\<rparr>"
    using pos by (rule ingest_detection_returns)
  have 2: "ingest_loop P fr lbox (map fst (d reg)) [] (i reg) (d reg)
             = Inr (map fst (d reg), ?to_add, ?n, d reg)"
    using pos by (rule ingest_loop_result)
  have 3: "length ?to_add = length lbox" by (rule length_spawned)
  have 4: "\<forall>k<length lbox. ?to_add ! k = (i reg + k, Tracker_init P fr (lbox ! k) (i reg + k))"
    by (simp add: nth_spawned)
  have 5: "fst ` set ?to_add = (fst ` set (d reg) - set (map fst (d reg))) \<union> {i reg ..< ?n}"
    by (simp add: k)
  have 6: "\<forall>k\<in>fst ` set (d reg). k \<notin> fst ` set ?to_add"
    using inv by (auto simp: k)
  from 1 2 3 4 5 6 show ?thesis by (intro conjI)
qed

theorem reconcile_destructive_witness:
  "(0::nat) < 1
   \<and> left (rectangle 20 20 30 30) < right (rectangle 20 20 30 30)
   \<and> top (rectangle 20 20 30 30) < bottom (rectangle 20 20 30 30)
   \<and> TrackerList_ingest_detection (mock_prim (\<lambda>b. 9) 9) (frame_of 1) [rectangle 20 20 30 30]
        \<lparr>d = [(0, Tracker_init (mock_prim (\<lambda>b. 9) 9) (frame_of 0) (rectangle 0 0 10 10) 0)],
          i = 1\<rparr>
      = Inr \<lparr>d = [(1, Tracker_init (mock_prim (\<lambda>b. 9) 9) (frame_of 1)
                        (rectangle 20 20 30 30) 1)],
             i = 2\<rparr>
   \<and> ingest_loop (mock_prim (\<lambda>b. 9) 9) (frame_of 1) [rectangle 20 20 30 30] [0] [] 1
        [(0, Tracker_init (mock_prim (\<lambda>b. 9) 9) (frame_of 0) (rectangle 0 0 10 10) 0)]
      = Inr ([0],
             [(1, Tracker_init (mock_prim (\<lambda>b. 9) 9) (frame_of 1) (rectangle 20 20 30 30) 1)],
             2,
             [(0, Tracker_init (mock_prim (\<lambda>b. 9) 9) (frame_of 0) (rectangle 0 0 10 10) 0)])
   \<and> (0::nat) \<notin> fst ` set [(1::nat, Tracker_init (mock_prim (\<lambda>b. 9) 9) (frame_of 1)
                                        (rectangle 20 20 30 30) 1)]"
proof -
  let ?P = "mock_prim (\<lambda>b. 9) 9"
  let ?old = "Tracker_init ?P (frame_of 0) (rectangle 0 0 10 10) 0"
  let ?new = "Tracker_init ?P (frame_of 1) (rectangle 20 20 30 30) 1"
  let ?reg = "\<lparr>d = [(0, ?old)], i = 1\<rparr>"
  have inv: "\<forall>k\<in>fst ` set (d ?reg). k < i ?reg" by simp
  have b1: "left (rectangle 20 20 30 30) < right (rectangle 20 20 30 30)"
    and b2: "top (rectangle 20 20 30 30) < bottom (rectangle 20 20 30 30)"
    by (simp_all add: rectangle_def)
  then have boxes: "\<forall>b\<in>set [rectangle 20 20 30 30]. left b < right b \<and> top b < bottom b"
    by simp
  note w = reconcile_destructive [OF inv boxes, of ?P "frame_of 1"]
  have sp: "spawned ?P (frame_of 1) [rectangle 20 20 30 30] (i ?reg) = [(1, ?new)]"
    by simp
  from w have r1: "TrackerList_ingest_detection ?P (frame_of 1) [rectangle 20 20 30 30] ?reg
      = Inr \<lparr>d = [(1, ?new)], i = 2\<rparr>"
    unfolding sp by simp
  from w have r2: "ingest_loop ?P (frame_of 1) [rectangle 20 20 30 30] [0] [] 1 [(0, ?old)]
      = Inr ([0], [(1, ?new)], 2, [(0, ?old)])"
    unfolding sp by simp
  have r3: "(0::nat) \<notin> fst ` set [(1::nat, ?new)]" by simp
  have "(0::nat) < 1" by simp
  with b1 b2 r1 r2 r3 show ?thesis by (intro conjI)
qed

text \<open>
  C3. Identifiers are unique and monotone. Let \<open>reg1\<close> be the registry after any
  sequence of \<^verbatim>\<open>ingest_detection\<close> calls on a new registry, and \<open>reg2\<close> the
  registry after any further sequence of calls. Then no two live tracks of \<open>reg2\<close>
  share an identifier, the live identifiers stand in strictly increasing order, every
  live track carries its key as \<^verbatim>\<open>tid\<close> (a track that stays keeps its identifier),
  every identifier given out lies below the counter, the counter never decreases, and
  a live identifier of \<open>reg2\<close> is either live in \<open>reg1\<close> already or not below the
  counter of \<open>reg1\<close>: an identifier that was given out and removed is never live
  again.
\<close>

theorem ids_unique_monotone:
  assumes "reconcile_seq P cs1 TrackerList_init = Inr reg1"
    and "reconcile_seq P cs2 reg1 = Inr reg2"
  shows "distinct (map fst (d reg2))
       \<and> sorted_wrt (<) (map fst (d reg2))
       \<and> (\<forall>e\<in>set (d reg2). tid (snd e) = fst e \<and> fst e < i reg2)
       \<and> (\<forall>k\<in>fst ` set (d reg1). k < i reg1)
       \<and> i reg1 \<le> i reg2
       \<and> (\<forall>k\<in>fst ` set (d reg2). k \<in> fst ` set (d reg1) \<or> i reg1 \<le> k)"
proof -
  from registry_inv_seq [OF assms(1) registry_inv_init] have i1: "registry_inv reg1" by simp
  from registry_inv_seq [OF assms(2) i1]
  have i2: "registry_inv reg2" and mono: "i reg1 \<le> i reg2"
    and fr: "\<forall>k\<in>fst ` set (d reg2). k \<in> fst ` set (d reg1) \<or> i reg1 \<le> k"
    by simp_all
  from registry_inv_keys(3) [OF i1] have "\<forall>k\<in>fst ` set (d reg1). k < i reg1" by auto
  with registry_inv_keys [OF i2] mono fr show ?thesis by (intro conjI)
qed

theorem ids_unique_monotone_witness:
  "reconcile_seq (mock_prim (\<lambda>b. 9) 9) [(frame_of 0, [rectangle 0 0 10 10])] TrackerList_init
     = Inr \<lparr>d = [(0, Tracker_init (mock_prim (\<lambda>b. 9) 9) (frame_of 0) (rectangle 0 0 10 10) 0)],
            i = 1\<rparr>
   \<and> reconcile_seq (mock_prim (\<lambda>b. 9) 9)
        [(frame_of 1, [rectangle 0 0 10 10, rectangle 20 20 30 30])]
        \<lparr>d = [(0, Tracker_init (mock_prim (\<lambda>b. 9) 9) (frame_of 0) (rectangle 0 0 10 10) 0)],
          i = 1\<rparr>
     = Inr \<lparr>d = [(1, Tracker_init (mock_prim (\<lambda>b. 9) 9) (frame_of 1) (rectangle 0 0 10 10) 1),
                 (2, Tracker_init (mock_prim (\<lambda>b. 9) 9) (frame_of 1) (rectangle 20 20 30 30) 2)],
            i = 3\<rparr>
   \<and> distinct [1, 2 :: nat] \<and> (1::nat) \<le> 3"
proof -
  let ?P = "mock_prim (\<lambda>b. 9) 9"
  let ?reg1 = "\<lparr>d = [(0, Tracker_init ?P (frame_of 0) (rectangle 0 0 10 10) 0)], i = 1\<rparr>"
  let ?reg2 = "\<lparr>d = [(1, Tracker_init ?P (frame_of 1) (rectangle 0 0 10 10) 1),
                      (2, Tracker_init ?P (frame_of 1) (rectangle 20 20 30 30) 2)], i = 3\<rparr>"
  have a1: "\<forall>b\<in>set [rectangle 0 0 10 10]. 0 < area b"
    and a2: "\<forall>b\<in>set [rectangle 0 0 10 10, rectangle 20 20 30 30]. 0 < area b"
    by (simp_all add: geometry_defs)
  have s1: "reconcile_seq ?P [(frame_of 0, [rectangle 0 0 10 10])] TrackerList_init = Inr ?reg1"
    by (simp add: ingest_detection_returns [OF a1] TrackerList_init_def)
  have s2: "reconcile_seq ?P [(frame_of 1, [rectangle 0 0 10 10, rectangle 20 20 30 30])] ?reg1
              = Inr ?reg2"
    by (simp add: ingest_detection_returns [OF a2] eval_nat_numeral)
  from ids_unique_monotone [OF s1 s2] have "distinct (map fst (d ?reg2))" "i ?reg1 \<le> i ?reg2"
    by blast+
  then have "distinct [1, 2 :: nat]" "(1::nat) \<le> 3" by simp_all
  with s1 s2 show ?thesis by (intro conjI)
qed

text \<open>
  C4. The scenario of the greedy match: one live track at \<open>(0, 0, 10, 10)\<close> and two
  detections, \<open>(0, 0, 10, 10)\<close> and \<open>(0, 0, 10, 9)\<close>, both overlapping the track
  with a ratio above 0.5 (as the specification computes it), the probe answering 9 for
  the first and 8 for the second. The first detection should claim track 0 and the
  second should spawn track 1. \<^verbatim>\<open>ingest_detection\<close> spawns a track for each of
  them, with the identifiers 1 and 2, and track 0 is dropped: the ratio
  \<^verbatim>\<open>Tracker.iou\<close> computes never exceeds 0.5, so the probe is not consulted.
\<close>

theorem greedy_scenario_both_spawn:
  "0.5 < iou_spec (rectangle 0 0 10 10) (rectangle 0 0 10 10)
   \<and> 0.5 < iou_spec (rectangle 0 0 10 9) (rectangle 0 0 10 10)
   \<and> prim_update_guess (mock_prim (\<lambda>b. if b = rectangle 0 0 10 10 then 9 else 8) 9)
        (frame_of 1) (rectangle 0 0 10 10) (rectangle 0 0 10 10) = (9, rectangle 0 0 10 10)
   \<and> prim_update_guess (mock_prim (\<lambda>b. if b = rectangle 0 0 10 10 then 9 else 8) 9)
        (frame_of 1) (rectangle 0 0 10 9) (rectangle 0 0 10 10) = (8, rectangle 0 0 10 10)
   \<and> TrackerList_ingest_detection (mock_prim (\<lambda>b. if b = rectangle 0 0 10 10 then 9 else 8) 9)
        (frame_of 1) [rectangle 0 0 10 10, rectangle 0 0 10 9]
        \<lparr>d = [(0, Tracker_init (mock_prim (\<lambda>b. if b = rectangle 0 0 10 10 then 9 else 8) 9)
                     (frame_of 0) (rectangle 0 0 10 10) 0)], i = 1\<rparr>
      = Inr \<lparr>d = [(1, Tracker_init (mock_prim (\<lambda>b. if b = rectangle 0 0 10 10 then 9 else 8) 9)
                          (frame_of 1) (rectangle 0 0 10 10) 1),
                  (2, Tracker_init (mock_prim (\<lambda>b. if b = rectangle 0 0 10 10 then 9 else 8) 9)
                          (frame_of 1) (rectangle 0 0 10 9) 2)],
             i = 3\<rparr>"
proof -
  have a: "\<forall>b\<in>set [rectangle 0 0 10 10, rectangle 0 0 10 9]. 0 < area b"
    by (simp add: geometry_defs)
  have "0.5 < iou_spec (rectangle 0 0 10 10) (rectangle 0 0 10 10)"
    "0.5 < iou_spec (rectangle 0 0 10 9) (rectangle 0 0 10 10)"
    by (simp_all add: iou_spec_def geometry_defs)
  moreover have
    "prim_update_guess (mock_prim (\<lambda>b. if b = rectangle 0 0 10 10 then 9 else 8) 9)
        (frame_of 1) (rectangle 0 0 10 10) (rectangle 0 0 10 10) = (9, rectangle 0 0 10 10)"
    "prim_update_guess (mock_prim (\<lambda>b. if b = rectangle 0 0 10 10 then 9 else 8) 9)
        (frame_of 1) (rectangle 0 0 10 9) (rectangle 0 0 10 10) = (8, rectangle 0 0 10 10)"
    by (simp_all add: mock_prim_def rectangle_def)
  ultimately show ?thesis
    by (simp add: ingest_detection_returns [OF a] eval_nat_numeral)
qed

text \<open>
  C5. The retirement rule keeps a track whose quality is at least 7 and whose box
  overlaps the frame, and removes a track whose box lies outside the frame.
  \<^verbatim>\<open>TrackerList.update\<close> does neither. On an image of 100 by 100 pixels the
  comparison of the frame with the tracker's last frame raises \<^verbatim>\<open>ValueError\<close>
  before the track is propagated. On frames of a single element, where the comparison
  has a truth value, a track of quality 9 reaches \<^verbatim>\<open>is_in_frame\<close>, which reads the
  unbound name \<^verbatim>\<open>frame\<close> and raises \<^verbatim>\<open>NameError\<close>, for a box that overlaps the
  frame and for a box outside it alike; only a track of quality below 7 is handled: it
  is removed before the bounds check is reached.
\<close>

theorem update_raises_on_healthy_track:
  "TrackerList_update module_globals (mock_prim (\<lambda>b. 9) 9) (frame_of 1)
     \<lparr>d = [(0, Tracker_init (mock_prim (\<lambda>b. 9) 9) (frame_of 0) (rectangle 0 0 10 10) 0)], i = 1\<rparr>
     = Inl ValueError
   \<and> TrackerList_update module_globals (mock_prim (\<lambda>b. 9) 9) (pixel_frame 1 1)
     \<lparr>d = [(0, Tracker_init (mock_prim (\<lambda>b. 9) 9) (pixel_frame 0 0) (rectangle 0 0 10 10) 0)],
       i = 1\<rparr>
     = Inl (NameError ''frame'')
   \<and> TrackerList_update module_globals (mock_prim (\<lambda>b. 9) 9) (pixel_frame 1 1)
     \<lparr>d = [(0, Tracker_init (mock_prim (\<lambda>b. 9) 9) (pixel_frame 0 0)
                  (rectangle 200 200 210 210) 0)],
       i = 1\<rparr>
     = Inl (NameError ''frame'')
   \<and> TrackerList_update module_globals (mock_prim (\<lambda>b. 9) 3) (pixel_frame 1 1)
     \<lparr>d = [(0, Tracker_init (mock_prim (\<lambda>b. 9) 3) (pixel_frame 0 0) (rectangle 0 0 10 10) 0)],
       i = 1\<rparr>
     = Inr \<lparr>d = [], i = 1\<rparr>"
  by (simp add: TrackerList_update_def dict_get_def dict_del_def Tracker_update_def
      array_ne_truth_def Tracker_init_def mock_prim_def frame_of_def pixel_frame_def
      Tracker_is_in_frame_def module_globals_def)

text \<open>
  C6. The scheduler should propagate on every frame, detect and reconcile when the
  frame counter is not a multiple of the period, and then count the frame.
  \<^verbatim>\<open>TrackerDetector.__call__\<close> reads the name \<^verbatim>\<open>tl\<close> where its registry is
  \<^verbatim>\<open>self.tl\<close>: with the module's globals it raises \<^verbatim>\<open>NameError\<close> on every
  frame, for every scheduler, before anything is propagated, detected or counted.
  Were a global \<^verbatim>\<open>tl\<close> bound to an empty registry, a new scheduler of period 3
  would raise \<^verbatim>\<open>AttributeError\<close> on a detection frame (counter 1), where it reads
  \<^verbatim>\<open>self.face_detector\<close>, and would return an empty list and count the frame on
  a frame without detection (counter 0).
\<close>

theorem call_raises_name_error:
  "TrackerDetector_call module_globals P fr self = Inl (NameError ''tl'')
   \<and> TrackerDetector_call \<lparr>g_frame = None, g_tl = Some TrackerList_init\<rparr> P fr
        ((TrackerDetector_init det 3)\<lparr>iframe := 1\<rparr>)
     = Inl (AttributeError ''face_detector'')
   \<and> TrackerDetector_call \<lparr>g_frame = None, g_tl = Some TrackerList_init\<rparr> P fr
        (TrackerDetector_init det 3)
     = Inr ([], \<lparr>g_frame = None, g_tl = Some TrackerList_init\<rparr>,
            (TrackerDetector_init det 3)\<lparr>iframe := 1\<rparr>)"
  by (simp add: TrackerDetector_call_def module_globals_def TrackerList_update_def
      TrackerList_init_def TrackerDetector_init_def)

text \<open>
  C7. The scheduler should emit, for every live track, a tuple of the box, the
  identifier, the detection confidence and the tracking quality. On the first frame
  given to a new scheduler of period 3 the call raises \<^verbatim>\<open>NameError\<close> and emits
  nothing; and the loop that builds the emitted list yields, for a registry with one
  track, the pair of the box and the identifier only.
\<close>

theorem emission_pairs_only:
  "TrackerDetector_call module_globals (mock_prim (\<lambda>b. 9) 9) (frame_of 0)
      (TrackerDetector_init (\<lambda>fr. [((0, 0, 10, 10), 1)]) 3)
     = Inl (NameError ''tl'')
   \<and> emit_loop (mock_prim (\<lambda>b. 9) 9) [0]
        [(0, Tracker_init (mock_prim (\<lambda>b. 9) 9) (frame_of 0) (rectangle 0 0 10 10) 0)]
     = Inr [((0, 0, 10, 10), 0)]"
  by (simp add: TrackerDetector_call_def module_globals_def dict_get_def Tracker_init_def
      mock_prim_def rectangle_def)

text \<open>
  C8. Propagation should be memoized per frame object: a repeated \<^verbatim>\<open>update\<close> with
  the frame last propagated should return the stored quality without consulting the
  tracking primitive, and any other frame should be propagated. \<^verbatim>\<open>Tracker.update\<close>
  compares the frames with \<^verbatim>\<open>!=\<close>, which on arrays is a comparison of the
  elements. On an image of 100 by 100 pixels the call raises \<^verbatim>\<open>ValueError\<close>, on
  the first propagation of a new tracker as on a repeated call with the frame it has
  stored. On arrays of a single element the comparison goes by content: another frame
  object with the same element is taken for the stored frame and is not propagated.
\<close>

theorem update_compares_arrays:
  "Tracker_update P (frame_of 1) (Tracker_init P (frame_of 0) bb n) = Inl ValueError
   \<and> Tracker_update P (frame_of 1)
        \<lparr>last_frame = frame_of 1, t = s, tid = n, update_val = Some 9\<rparr>
      = Inl ValueError
   \<and> pixel_frame 2 5 \<noteq> pixel_frame 1 5
   \<and> Tracker_update P (pixel_frame 2 5)
        \<lparr>last_frame = pixel_frame 1 5, t = s, tid = n, update_val = Some 9\<rparr>
      = Inr (9, \<lparr>last_frame = pixel_frame 1 5, t = s, tid = n, update_val = Some 9\<rparr>)"
  by (simp add: Tracker_update_def array_ne_truth_def Tracker_init_def frame_of_def
      pixel_frame_def)






end
